theory Spec2Isabelle
  imports Complex_Main
begin

section \<open>Forward-additive image alignment: one Gauss-Newton step\<close>

text \<open>
  The development embeds \<^verbatim>\<open>AlignForwardAdditive<W>::alignImpl\<close> and
  \<^verbatim>\<open>AlignForwardAdditive<W>::applyStep\<close> of
  \<^verbatim>\<open>image-align/inc/imagealign/forward_additive.h\<close>.

  Scalars. The source computes with \<^verbatim>\<open>float\<close> (image intensities, the residual)
  and with \<^verbatim>\<open>W::Traits::ScalarType\<close> (points, matrices, the error sum). The
  model has one scalar type \<open>'a\<close> for both, so the conversion
  \<^verbatim>\<open>ScalarType(err * err)\<close> is the identity. The definitions use only
  \<open>0\<close>, \<open>+\<close>, \<open>-\<close> and \<open>*\<close> of \<open>'a\<close> and assume no law of arithmetic:
  every theorem stated for an arbitrary \<open>'a\<close> holds whatever these four operations are,
  rounding ones included. Theorems that need laws of exact arithmetic say so, in the sort
  of \<open>'a\<close> or in a hypothesis.

  Integers. The loop counters and \<^verbatim>\<open>sumConstraints\<close> are \<^verbatim>\<open>int\<close> in the
  source. A counter stays below \<^verbatim>\<open>tpl.rows\<close> or \<^verbatim>\<open>tpl.cols\<close> and the count
  below the number of template pixels, so for a template of fewer than \<open>2\<^sup>3\<^sup>1\<close> pixels
  nothing overflows; the model uses the integers.
\<close>

subsection \<open>Matrices\<close>

text \<open>
  The matrix types of \<^verbatim>\<open>W::Traits\<close> (\<^verbatim>\<open>HessianType\<close>,
  \<^verbatim>\<open>ParamType\<close>, \<^verbatim>\<open>PixelSDIType\<close>, \<^verbatim>\<open>GradientType\<close>,
  \<^verbatim>\<open>JacobianType\<close>) are OpenCV matrices. A matrix of \<open>m\<close> rows and \<open>n\<close>
  columns is the list of its \<open>m\<close> rows, each a list of \<open>n\<close> entries; the operations
  below are the ones the source applies to them. A point (\<^verbatim>\<open>PointType\<close>, a 2x1
  matrix filled by \<^verbatim>\<open>p << x, y\<close>) is the pair of its two entries.
\<close>

type_synonym 'a Matx = "'a list list"
type_synonym 'a Point = "'a \<times> 'a"

definition Matx_zeros :: "nat \<Rightarrow> nat \<Rightarrow> 'a::zero Matx" where
  "Matx_zeros m n = replicate m (replicate n 0)"

text \<open>\<^verbatim>\<open>a.t()\<close>: entry \<open>(j, i)\<close> of the result is entry \<open>(i, j)\<close> of \<open>a\<close>.\<close>

definition Matx_ncols :: "'a Matx \<Rightarrow> nat" where
  "Matx_ncols A = (case A of [] \<Rightarrow> 0 | r # _ \<Rightarrow> length r)"

definition Matx_t :: "'a Matx \<Rightarrow> 'a Matx" where
  "Matx_t A = map (\<lambda>j. map (\<lambda>r. r ! j) A) [0..<Matx_ncols A]"

text \<open>
  \<^verbatim>\<open>a * b\<close> on matrices: entry \<open>(i, j)\<close> is computed as
  \<^verbatim>\<open>s = 0; for k: s += a(i,k) * b(k,j)\<close>.
\<close>

definition Matx_dot :: "'a::{zero,plus,times} list \<Rightarrow> 'a list \<Rightarrow> 'a" where
  "Matx_dot r c = foldl (\<lambda>s (a, b). s + a * b) 0 (zip r c)"

definition Matx_mul :: "'a::{zero,plus,times} Matx \<Rightarrow> 'a Matx \<Rightarrow> 'a Matx" where
  "Matx_mul A B = map (\<lambda>r. map (\<lambda>c. Matx_dot r c) (Matx_t B)) A"

text \<open>\<^verbatim>\<open>a * alpha\<close> with a scalar, and \<^verbatim>\<open>a += b\<close>, both entry by entry.\<close>

definition Matx_scale :: "'a::times Matx \<Rightarrow> 'a \<Rightarrow> 'a Matx" where
  "Matx_scale A alpha = map (map (\<lambda>a. a * alpha)) A"

definition Matx_add :: "'a::plus Matx \<Rightarrow> 'a Matx \<Rightarrow> 'a Matx" where
  "Matx_add A B = map2 (map2 (+)) A B"

subsection \<open>Images (\<^verbatim>\<open>cv::Mat\<close> of \<^verbatim>\<open>float\<close>)\<close>

text \<open>
  \<open>ptr m y x\<close> is \<^verbatim>\<open>m.ptr<float>(y)[x]\<close>; \<open>Mat_size m\<close> is
  \<^verbatim>\<open>m.size()\<close>, the pair (width, height).
\<close>

record 'a Mat =
  rows :: int
  cols :: int
  ptr :: "int \<Rightarrow> int \<Rightarrow> 'a"

definition Mat_size :: "'a Mat \<Rightarrow> int \<times> int" where
  "Mat_size m = (cols m, rows m)"

subsection \<open>What \<^verbatim>\<open>alignImpl\<close> calls\<close>

text \<open>
  The warp type \<^verbatim>\<open>W\<close> is a template parameter: the operations of \<open>W\<close> that the
  source uses are the fields of a record, over the type \<open>'w\<close> of warp objects.
  \<open>warp W w p\<close> is \<^verbatim>\<open>w(p)\<close>.
\<close>

record ('a, 'w) WarpType =
  numParameters :: "'w \<Rightarrow> nat"
  warp :: "'w \<Rightarrow> 'a Point \<Rightarrow> 'a Point"
  jacobian :: "'w \<Rightarrow> 'a Point \<Rightarrow> 'a Matx"
  updateForwardAdditive :: "'w \<Rightarrow> 'a Matx \<Rightarrow> 'w"

text \<open>
  The sampler (\<^verbatim>\<open>sampling.h\<close>), the gradient (\<^verbatim>\<open>gradient.h\<close>),
  \<^verbatim>\<open>AlignBase::isInImage\<close> (\<^verbatim>\<open>align_base.h\<close>), the matrix inverse
  \<^verbatim>\<open>inv()\<close> of OpenCV and the conversion \<^verbatim>\<open>ScalarType(int)\<close> are not part
  of \<^verbatim>\<open>forward_additive.h\<close>: they are parameters of the model.
\<close>

record 'a Env =
  sample :: "'a Mat \<Rightarrow> 'a Point \<Rightarrow> 'a"
  gradient :: "'a Mat \<Rightarrow> 'a Point \<Rightarrow> 'a Matx"
  isInImage :: "'a Point \<Rightarrow> int \<times> int \<Rightarrow> int \<Rightarrow> bool"
  Matx_inv :: "'a Matx \<Rightarrow> 'a Matx"
  ScalarType :: "int \<Rightarrow> 'a"

text \<open>
  The members of \<^verbatim>\<open>AlignBase\<close> that \<^verbatim>\<open>alignImpl\<close> reads through
  \<^verbatim>\<open>this\<close>. The record is extensible: whatever else the object holds is its
  \<open>more\<close> part.
\<close>

record 'a AlignBase =
  templateImage :: "'a Mat"
  targetImage :: "'a Mat"

text \<open>
  Modelled from the spec: \<^verbatim>\<open>W::Traits::zeroHessian\<close> and
  \<^verbatim>\<open>W::Traits::zeroParam\<close> (\<^verbatim>\<open>warp.h\<close> is not among the sources): the
  Hessian accumulator is a PxP matrix and the right-hand side a P-length vector
  (a Px1 matrix), both zero-initialised.
\<close>

definition zeroHessian :: "nat \<Rightarrow> 'a::zero Matx" where
  "zeroHessian n = Matx_zeros n n"

definition zeroParam :: "nat \<Rightarrow> 'a::zero Matx" where
  "zeroParam n = Matx_zeros n 1"

subsection \<open>\<^verbatim>\<open>alignImpl\<close>\<close>

text \<open>The locals that the two loops update (lines 94 to 98).\<close>

record 'a Locals =
  hessian :: "'a Matx"
  rhs_b :: "'a Matx"
  sumErrors_acc :: 'a
  sumConstraints :: int

record 'a SingleStepResult =
  delta :: "'a Matx"
  sumErrors :: 'a
  numConstraints :: int

text \<open>
  The body of the inner loop (lines 105 to 136) for the template pixel in column \<open>x\<close> of
  row \<open>y\<close>; \<^verbatim>\<open>continue\<close> leaves the locals as they are.
\<close>

definition pixelBody ::
  "'a::{zero,plus,minus,times} Env \<Rightarrow> ('a, 'w) WarpType \<Rightarrow> 'a Mat \<Rightarrow> 'a Mat \<Rightarrow> 'w
    \<Rightarrow> int \<Rightarrow> int \<Rightarrow> 'a Locals \<Rightarrow> 'a Locals" where
  "pixelBody E W tpl target w y x l =
     (let templateIntensity = ptr tpl y x;
          ptpl = (ScalarType E x, ScalarType E y);
          ptgt = warp W w ptpl
      in if \<not> isInImage E ptgt (Mat_size target) 1 then l
         else
           let targetIntensity = sample E target ptgt;
               err = templateIntensity - targetIntensity;
               grad = gradient E target ptgt;
               jac = jacobian W w ptpl;
               sd = Matx_mul grad jac
           in \<lparr> hessian = Matx_add (hessian l) (Matx_mul (Matx_t sd) sd),
                rhs_b = Matx_add (rhs_b l) (Matx_scale (Matx_t sd) err),
                sumErrors_acc = sumErrors_acc l + err * err,
                sumConstraints = sumConstraints l + 1 \<rparr>)"

text \<open>
  \<^verbatim>\<open>for (int x = ...; x < tpl.cols - 1; ++x)\<close> from the current \<open>x\<close>, and
  \<^verbatim>\<open>for (int y = ...; y < tpl.rows - 1; ++y)\<close> from the current \<open>y\<close>.
\<close>

function xLoop ::
  "'a::{zero,plus,minus,times} Env \<Rightarrow> ('a, 'w) WarpType \<Rightarrow> 'a Mat \<Rightarrow> 'a Mat \<Rightarrow> 'w
    \<Rightarrow> int \<Rightarrow> int \<Rightarrow> 'a Locals \<Rightarrow> 'a Locals" where
  "xLoop E W tpl target w y x l =
     (if x < cols tpl - 1
      then xLoop E W tpl target w y (x + 1) (pixelBody E W tpl target w y x l)
      else l)"
  by pat_completeness auto
termination
  by (relation "measure (\<lambda>(E, W, tpl, target, w, y, x, l). nat (cols tpl - 1 - x))") auto

function yLoop ::
  "'a::{zero,plus,minus,times} Env \<Rightarrow> ('a, 'w) WarpType \<Rightarrow> 'a Mat \<Rightarrow> 'a Mat \<Rightarrow> 'w
    \<Rightarrow> int \<Rightarrow> 'a Locals \<Rightarrow> 'a Locals" where
  "yLoop E W tpl target w y l =
     (if y < rows tpl - 1
      then yLoop E W tpl target w (y + 1) (xLoop E W tpl target w y 1 l)
      else l)"
  by pat_completeness auto
termination
  by (relation "measure (\<lambda>(E, W, tpl, target, w, y, l). nat (rows tpl - 1 - y))") auto

declare xLoop.simps [simp del] yLoop.simps [simp del]

text \<open>Lines 89 to 138: the locals after both loops.\<close>

definition alignAccumulate ::
  "'a::{zero,plus,minus,times} Env \<Rightarrow> ('a, 'w) WarpType \<Rightarrow> ('a, 'z) AlignBase_scheme \<Rightarrow> 'w
    \<Rightarrow> 'a Locals" where
  "alignAccumulate E W this w =
     (let tpl = templateImage this;
          target = targetImage this
      in yLoop E W tpl target w 1
           \<lparr> hessian = zeroHessian (numParameters W w),
             rhs_b = zeroParam (numParameters W w),
             sumErrors_acc = 0,
             sumConstraints = 0 \<rparr>)"

text \<open>Lines 140 to 148: the solve and the result.\<close>

definition alignImpl ::
  "'a::{zero,plus,minus,times} Env \<Rightarrow> ('a, 'w) WarpType \<Rightarrow> ('a, 'z) AlignBase_scheme \<Rightarrow> 'w
    \<Rightarrow> 'a SingleStepResult" where
  "alignImpl E W this w =
     (let l = alignAccumulate E W this w;
          d = Matx_mul (Matx_inv E (hessian l)) (rhs_b l)
      in \<lparr> delta = d, sumErrors = sumErrors_acc l, numConstraints = sumConstraints l \<rparr>)"

definition applyStep :: "('a, 'w) WarpType \<Rightarrow> 'w \<Rightarrow> 'a SingleStepResult \<Rightarrow> 'w" where
  "applyStep W w s = updateForwardAdditive W w (delta s)"

subsection \<open>The step as the specification words it\<close>

text \<open>
  The template point of the pixel \<open>(x, y)\<close>, its warped point, the interior pixels in
  scan order (rows 1 to N-2, in each row columns 1 to M-2), the test of line 113, the
  residual of line 119, the steepest-descent row of line 130 and the contribution of one
  pixel to the four accumulators.
\<close>

definition p_tpl :: "'a Env \<Rightarrow> int \<times> int \<Rightarrow> 'a Point" where
  "p_tpl E p = (ScalarType E (fst p), ScalarType E (snd p))"

definition p_tgt :: "'a Env \<Rightarrow> ('a, 'w) WarpType \<Rightarrow> 'w \<Rightarrow> int \<times> int \<Rightarrow> 'a Point" where
  "p_tgt E W w p = warp W w (p_tpl E p)"

definition interior :: "'a Mat \<Rightarrow> (int \<times> int) list" where
  "interior tpl = concat (map (\<lambda>y. map (\<lambda>x. (x, y)) [1..cols tpl - 2]) [1..rows tpl - 2])"

definition contributes :: "'a Env \<Rightarrow> ('a, 'w) WarpType \<Rightarrow> 'a Mat \<Rightarrow> 'w \<Rightarrow> int \<times> int \<Rightarrow> bool" where
  "contributes E W target w p = isInImage E (p_tgt E W w p) (Mat_size target) 1"

definition contributing ::
  "'a Env \<Rightarrow> ('a, 'w) WarpType \<Rightarrow> 'a Mat \<Rightarrow> 'a Mat \<Rightarrow> 'w \<Rightarrow> (int \<times> int) list" where
  "contributing E W tpl target w = filter (contributes E W target w) (interior tpl)"

definition residual ::
  "'a::minus Env \<Rightarrow> ('a, 'w) WarpType \<Rightarrow> 'a Mat \<Rightarrow> 'a Mat \<Rightarrow> 'w \<Rightarrow> int \<times> int \<Rightarrow> 'a" where
  "residual E W tpl target w p = ptr tpl (snd p) (fst p) - sample E target (p_tgt E W w p)"

definition sdi ::
  "'a::{zero,plus,times} Env \<Rightarrow> ('a, 'w) WarpType \<Rightarrow> 'a Mat \<Rightarrow> 'w \<Rightarrow> int \<times> int \<Rightarrow> 'a Matx" where
  "sdi E W target w p = Matx_mul (gradient E target (p_tgt E W w p)) (jacobian W w (p_tpl E p))"

definition addPixel ::
  "'a::{zero,plus,minus,times} Env \<Rightarrow> ('a, 'w) WarpType \<Rightarrow> 'a Mat \<Rightarrow> 'a Mat \<Rightarrow> 'w
    \<Rightarrow> 'a Locals \<Rightarrow> int \<times> int \<Rightarrow> 'a Locals" where
  "addPixel E W tpl target w l p =
     \<lparr> hessian = Matx_add (hessian l) (Matx_mul (Matx_t (sdi E W target w p)) (sdi E W target w p)),
       rhs_b = Matx_add (rhs_b l) (Matx_scale (Matx_t (sdi E W target w p)) (residual E W tpl target w p)),
       sumErrors_acc = sumErrors_acc l + residual E W tpl target w p * residual E W tpl target w p,
       sumConstraints = sumConstraints l + 1 \<rparr>"

text \<open>The normal equations summed over the contributing pixels, in scan order.\<close>

definition normalH ::
  "'a::{zero,plus,minus,times} Env \<Rightarrow> ('a, 'w) WarpType \<Rightarrow> 'a Mat \<Rightarrow> 'a Mat \<Rightarrow> 'w \<Rightarrow> 'a Matx" where
  "normalH E W tpl target w =
     foldl (\<lambda>H p. Matx_add H (Matx_mul (Matx_t (sdi E W target w p)) (sdi E W target w p)))
       (zeroHessian (numParameters W w)) (contributing E W tpl target w)"

definition normalB ::
  "'a::{zero,plus,minus,times} Env \<Rightarrow> ('a, 'w) WarpType \<Rightarrow> 'a Mat \<Rightarrow> 'a Mat \<Rightarrow> 'w \<Rightarrow> 'a Matx" where
  "normalB E W tpl target w =
     foldl (\<lambda>b p. Matx_add b
              (Matx_scale (Matx_t (sdi E W target w p)) (residual E W tpl target w p)))
       (zeroParam (numParameters W w)) (contributing E W tpl target w)"

text \<open>The locals as lines 94 to 98 initialise them.\<close>

definition zeroLocals :: "nat \<Rightarrow> 'a::zero Locals" where
  "zeroLocals n =
     \<lparr> hessian = zeroHessian n, rhs_b = zeroParam n, sumErrors_acc = 0, sumConstraints = 0 \<rparr>"

subsection \<open>Outcome of a call\<close>

text \<open>
  The failures that the specification names for a step. The body of
  \<^verbatim>\<open>alignImpl\<close> has no \<^verbatim>\<open>throw\<close> and no \<^verbatim>\<open>return\<close> other than
  its last line, so a call, seen as a value that is either a failure or a result, is
  always the result.
\<close>

datatype AlignError = AlignmentDegenerateError | AlignmentNoDataError

definition alignImpl_call ::
  "'a::{zero,plus,minus,times} Env \<Rightarrow> ('a, 'w) WarpType \<Rightarrow> ('a, 'z) AlignBase_scheme \<Rightarrow> 'w
    \<Rightarrow> AlignError + 'a SingleStepResult" where
  "alignImpl_call E W this w = Inr (alignImpl E W this w)"

subsection \<open>Shapes\<close>

text \<open>
  The shapes that the types of the source fix: \<^verbatim>\<open>GradientType\<close> is 1x2 and
  \<^verbatim>\<open>JacobianType\<close> is 2xP, with P the number of parameters of the warp.
\<close>

definition wellShaped :: "'a Env \<Rightarrow> ('a, 'w) WarpType \<Rightarrow> 'a Mat \<Rightarrow> 'w \<Rightarrow> bool" where
  "wellShaped E W target w \<longleftrightarrow>
     (\<forall>p. length (gradient E target p) = 1 \<and> length (hd (gradient E target p)) = 2) \<and>
     (\<forall>p. length (jacobian W w p) = 2 \<and>
          (\<forall>r \<in> set (jacobian W w p). length r = numParameters W w))"

text \<open>A matrix of \<open>m\<close> rows and \<open>n\<close> columns.\<close>

definition Matx_dim :: "nat \<Rightarrow> nat \<Rightarrow> 'a Matx \<Rightarrow> bool" where
  "Matx_dim m n A \<longleftrightarrow> length A = m \<and> (\<forall>r \<in> set A. length r = n)"

subsection \<open>An instance: translation warp, bilinear sampling, exact scalars\<close>

text \<open>
  A concrete instance on which the theorems are evaluated: real scalars, bilinear
  interpolation, central differences of it as the gradient, the bounds test with a border,
  the inverse of a 2x2 matrix (the zero matrix when the determinant is zero, as
  \<^verbatim>\<open>inv()\<close> of OpenCV answers for a singular matrix), and the translation warp \<open>p + t\<close> with P = 2, whose
  parameters are the 2x1 matrix \<open>t\<close> and whose additive update is \<open>t + delta\<close>.
\<close>

definition bilinear :: "real Mat \<Rightarrow> real Point \<Rightarrow> real" where
  "bilinear img p =
     (let x0 = \<lfloor>fst p\<rfloor>; y0 = \<lfloor>snd p\<rfloor>;
          a = fst p - of_int x0; b = snd p - of_int y0
      in (1 - a) * (1 - b) * ptr img y0 x0 + a * (1 - b) * ptr img y0 (x0 + 1)
         + (1 - a) * b * ptr img (y0 + 1) x0 + a * b * ptr img (y0 + 1) (x0 + 1))"

definition centralDifference :: "real Mat \<Rightarrow> real Point \<Rightarrow> real Matx" where
  "centralDifference img p =
     [[(bilinear img (fst p + 1, snd p) - bilinear img (fst p - 1, snd p)) / 2,
       (bilinear img (fst p, snd p + 1) - bilinear img (fst p, snd p - 1)) / 2]]"

definition insideWithBorder :: "real Point \<Rightarrow> int \<times> int \<Rightarrow> int \<Rightarrow> bool" where
  "insideWithBorder p sz border =
     (of_int border \<le> fst p \<and> fst p < of_int (fst sz - border) \<and>
      of_int border \<le> snd p \<and> snd p < of_int (snd sz - border))"

definition inverse2x2 :: "real Matx \<Rightarrow> real Matx" where
  "inverse2x2 H =
     (if length H = 2 \<and> length (H ! 0) = 2 \<and> length (H ! 1) = 2
      then let a = H ! 0 ! 0; b = H ! 0 ! 1; c = H ! 1 ! 0; d = H ! 1 ! 1; det = a * d - b * c
           in if det = 0 then Matx_zeros 2 2
              else [[d / det, - b / det], [- c / det, a / det]]
      else Matx_zeros (length H) (length H))"

definition exampleEnv :: "real Env" where
  "exampleEnv =
     \<lparr> sample = bilinear, gradient = centralDifference, isInImage = insideWithBorder,
       Matx_inv = inverse2x2, ScalarType = of_int \<rparr>"

definition translationWarp :: "(real, real Matx) WarpType" where
  "translationWarp =
     \<lparr> numParameters = (\<lambda>w. 2),
       warp = (\<lambda>w p. (fst p + w ! 0 ! 0, snd p + w ! 1 ! 0)),
       jacobian = (\<lambda>w p. [[1, 0], [0, 1]]),
       updateForwardAdditive = (\<lambda>w d. Matx_add w d) \<rparr>"

definition exampleTemplate :: "real Mat" where
  "exampleTemplate = \<lparr> rows = 3, cols = 4, ptr = (\<lambda>y x. of_int (x * x + 2 * y)) \<rparr>"

definition exampleTarget :: "real Mat" where
  "exampleTarget = \<lparr> rows = 3, cols = 4, ptr = (\<lambda>y x. of_int (x * x + y * y + x * y)) \<rparr>"

definition exampleAligner :: "real AlignBase" where
  "exampleAligner = \<lparr> templateImage = exampleTemplate, targetImage = exampleTarget \<rparr>"

definition identityParams :: "real Matx" where
  "identityParams = [[0], [0]]"

definition shiftedParams :: "real Matx" where
  "shiftedParams = [[1], [0]]"

definition smallTemplate :: "real Mat" where
  "smallTemplate = \<lparr> rows = 2, cols = 2, ptr = (\<lambda>y x. of_int (x + y)) \<rparr>"

definition smallAligner :: "real AlignBase" where
  "smallAligner = \<lparr> templateImage = smallTemplate, targetImage = exampleTarget \<rparr>"

definition stripTemplate :: "real Mat" where
  "stripTemplate = \<lparr> rows = 1, cols = 3, ptr = (\<lambda>y x. of_int x) \<rparr>"

definition stripAligner :: "real AlignBase" where
  "stripAligner = \<lparr> templateImage = stripTemplate, targetImage = exampleTarget \<rparr>"

definition selfAligner :: "real AlignBase" where
  "selfAligner = \<lparr> templateImage = exampleTarget, targetImage = exampleTarget \<rparr>"

definition farParams :: "real Matx" where
  "farParams = [[100], [0]]"

definition borderChangedTemplate :: "real Mat" where
  "borderChangedTemplate =
     \<lparr> rows = 3, cols = 4,
       ptr = (\<lambda>y x. if y = 1 \<and> 1 \<le> x \<and> x \<le> 2 then of_int (x * x + 2 * y) else 99) \<rparr>"

definition annotatedAligner :: "(real, nat) AlignBase_scheme" where
  "annotatedAligner =
     \<lparr> templateImage = exampleTemplate, targetImage = exampleTarget, \<dots> = 7 \<rparr>"

subsection \<open>An instance with rounding\<close>

text \<open>
  A scalar type that rounds: its values are rationals, and every sum, difference and product
  is rounded to the nearest multiple of \<open>2\<^sup>-\<^sup>2\<^sup>3\<close>. For a result in the interval from
  1 to 2 this is the rounding of IEEE single precision. The instance has a translation warp,
  a sampler that reads the stored pixel, central differences of the stored pixels as the
  gradient, and one image, a ramp, as template and target.
\<close>

datatype rounded = Rounded (exact_value: rat)

text \<open>The nearest multiple of \<open>2\<^sup>-\<^sup>2\<^sup>3\<close>; 8388608 is \<open>2\<^sup>2\<^sup>3\<close>.\<close>

definition nearest :: "rat \<Rightarrow> rat" where
  "nearest q = of_int (round (q * 8388608)) / 8388608"

instantiation rounded :: "{zero,plus,minus,times}"
begin

definition zero_rounded :: rounded where
  "zero_rounded = Rounded 0"

definition plus_rounded :: "rounded \<Rightarrow> rounded \<Rightarrow> rounded" where
  "plus_rounded a b = Rounded (nearest (exact_value a + exact_value b))"

definition minus_rounded :: "rounded \<Rightarrow> rounded \<Rightarrow> rounded" where
  "minus_rounded a b = Rounded (nearest (exact_value a - exact_value b))"

definition times_rounded :: "rounded \<Rightarrow> rounded \<Rightarrow> rounded" where
  "times_rounded a b = Rounded (nearest (exact_value a * exact_value b))"

instance ..

end

definition storedPixel :: "rounded Mat \<Rightarrow> rounded Point \<Rightarrow> rounded" where
  "storedPixel img p = ptr img \<lfloor>exact_value (snd p)\<rfloor> \<lfloor>exact_value (fst p)\<rfloor>"

definition storedDifference :: "rounded Mat \<Rightarrow> rounded Point \<Rightarrow> rounded Matx" where
  "storedDifference img p =
     (let x = \<lfloor>exact_value (fst p)\<rfloor>; y = \<lfloor>exact_value (snd p)\<rfloor>
      in [[(ptr img y (x + 1) - ptr img y (x - 1)) * Rounded (1 / 2),
           (ptr img (y + 1) x - ptr img (y - 1) x) * Rounded (1 / 2)]])"

definition insideRounded :: "rounded Point \<Rightarrow> int \<times> int \<Rightarrow> int \<Rightarrow> bool" where
  "insideRounded p sz border =
     (of_int border \<le> exact_value (fst p) \<and> exact_value (fst p) < of_int (fst sz - border) \<and>
      of_int border \<le> exact_value (snd p) \<and> exact_value (snd p) < of_int (snd sz - border))"

definition roundedEnv :: "rounded Env" where
  "roundedEnv =
     \<lparr> sample = storedPixel, gradient = storedDifference, isInImage = insideRounded,
       Matx_inv = (\<lambda>H. Matx_zeros (length H) (length H)),
       ScalarType = (\<lambda>n. Rounded (of_int n)) \<rparr>"

definition roundedTranslation :: "(rounded, rounded Matx) WarpType" where
  "roundedTranslation =
     \<lparr> numParameters = (\<lambda>w. 2),
       warp = (\<lambda>w p. (fst p + w ! 0 ! 0, snd p + w ! 1 ! 0)),
       jacobian = (\<lambda>w p. [[Rounded 1, Rounded 0], [Rounded 0, Rounded 1]]),
       updateForwardAdditive = (\<lambda>w d. Matx_add w d) \<rparr>"

definition rampImage :: "rounded Mat" where
  "rampImage =
     \<lparr> rows = 3, cols = 3, ptr = (\<lambda>y x. Rounded (of_int x * (8193 / 8192) + of_int y)) \<rparr>"

definition rampAligner :: "rounded AlignBase" where
  "rampAligner = \<lparr> templateImage = rampImage, targetImage = rampImage \<rparr>"

definition roundedIdentity :: "rounded Matx" where
  "roundedIdentity = [[Rounded 0], [Rounded 0]]"

section \<open>The loops as a sum over the contributing pixels\<close>

lemma pixelBody_eq:
  "pixelBody E W tpl target w y x l =
     (if contributes E W target w (x, y) then addPixel E W tpl target w l (x, y) else l)"
  by (simp add: pixelBody_def contributes_def addPixel_def sdi_def residual_def p_tgt_def
      p_tpl_def Let_def)

lemma xLoop_foldl:
  "xLoop E W tpl target w y x l =
     foldl (\<lambda>l x. pixelBody E W tpl target w y x l) l [x..cols tpl - 2]"
proof (induction E W tpl target w y x l rule: xLoop.induct)
  case (1 E W tpl target w y x l)
  show ?case
  proof (cases "x < cols tpl - 1")
    case True
    then have "[x..cols tpl - 2] = x # [x + 1..cols tpl - 2]"
      by (simp add: upto_rec1)
    with True 1 show ?thesis
      by (simp add: xLoop.simps [of E W tpl target w y x l])
  next
    case False
    then show ?thesis
      by (simp add: xLoop.simps [of E W tpl target w y x l])
  qed
qed

lemma yLoop_foldl:
  "yLoop E W tpl target w y l =
     foldl (\<lambda>l y. xLoop E W tpl target w y 1 l) l [y..rows tpl - 2]"
proof (induction E W tpl target w y l rule: yLoop.induct)
  case (1 E W tpl target w y l)
  show ?case
  proof (cases "y < rows tpl - 1")
    case True
    then have "[y..rows tpl - 2] = y # [y + 1..rows tpl - 2]"
      by (simp add: upto_rec1)
    with True 1 show ?thesis
      by (simp add: yLoop.simps [of E W tpl target w y l])
  next
    case False
    then show ?thesis
      by (simp add: yLoop.simps [of E W tpl target w y l])
  qed
qed

lemma foldl_rows:
  "foldl (\<lambda>l y. foldl (\<lambda>l x. f y x l) l (xs y)) l ys =
     foldl (\<lambda>l p. f (snd p) (fst p) l) l (concat (map (\<lambda>y. map (\<lambda>x. (x, y)) (xs y)) ys))"
  by (induction ys arbitrary: l) (simp_all add: foldl_map)

lemma yLoop_interior:
  "yLoop E W tpl target w 1 l =
     foldl (\<lambda>l p. pixelBody E W tpl target w (snd p) (fst p) l) l (interior tpl)"
  unfolding yLoop_foldl xLoop_foldl interior_def
  by (rule foldl_rows)

lemma foldl_pixelBody:
  "foldl (\<lambda>l p. pixelBody E W tpl target w (snd p) (fst p) l) l ps =
     foldl (addPixel E W tpl target w) l (filter (contributes E W target w) ps)"
  by (induction ps arbitrary: l) (simp_all add: pixelBody_eq)

lemma yLoop_contributing:
  "yLoop E W tpl target w 1 l =
     foldl (addPixel E W tpl target w) l (contributing E W tpl target w)"
  by (simp add: yLoop_interior foldl_pixelBody contributing_def)

lemma hessian_foldl_addPixel:
  "hessian (foldl (addPixel E W tpl target w) l ps) =
     foldl (\<lambda>H p. Matx_add H (Matx_mul (Matx_t (sdi E W target w p)) (sdi E W target w p)))
       (hessian l) ps"
  by (induction ps arbitrary: l) (simp_all add: addPixel_def)

lemma rhs_b_foldl_addPixel:
  "rhs_b (foldl (addPixel E W tpl target w) l ps) =
     foldl (\<lambda>b p. Matx_add b (Matx_scale (Matx_t (sdi E W target w p)) (residual E W tpl target w p)))
       (rhs_b l) ps"
  by (induction ps arbitrary: l) (simp_all add: addPixel_def)

lemma sumErrors_foldl_addPixel:
  "sumErrors_acc (foldl (addPixel E W tpl target w) l ps) =
     foldl (\<lambda>s p. s + residual E W tpl target w p * residual E W tpl target w p)
       (sumErrors_acc l) ps"
  by (induction ps arbitrary: l) (simp_all add: addPixel_def)

lemma sumConstraints_foldl_addPixel:
  "sumConstraints (foldl (addPixel E W tpl target w) l ps) = sumConstraints l + int (length ps)"
  by (induction ps arbitrary: l) (simp_all add: addPixel_def)

lemma alignAccumulate_contributing:
  "alignAccumulate E W this w =
     foldl (addPixel E W (templateImage this) (targetImage this) w)
       (zeroLocals (numParameters W w))
       (contributing E W (templateImage this) (targetImage this) w)"
  by (simp add: alignAccumulate_def zeroLocals_def yLoop_contributing Let_def)

section \<open>The normal equations and the solve\<close>

lemma example_images:
  "templateImage exampleAligner = exampleTemplate" "targetImage exampleAligner = exampleTarget"
  by (simp_all add: exampleAligner_def)

text \<open>
  C1. The delta that a step returns is \<open>inv(H) * b\<close>: \<open>H\<close> and \<open>b\<close> are the sums, from
  zero and over exactly the contributing pixels, of \<open>sdi\<^sup>T * sdi\<close> and of
  \<open>sdi\<^sup>T * err\<close>, and the solve is the matrix inverse of \<open>H\<close> applied to \<open>b\<close>.
\<close>

theorem delta_is_inverse_applied_to_b:
  "delta (alignImpl E W this w) =
     Matx_mul (Matx_inv E (normalH E W (templateImage this) (targetImage this) w))
       (normalB E W (templateImage this) (targetImage this) w)"
  by (simp add: alignImpl_def alignAccumulate_contributing hessian_foldl_addPixel
      rhs_b_foldl_addPixel normalH_def normalB_def zeroLocals_def Let_def)

theorem delta_is_inverse_applied_to_b_witness:
  "normalH exampleEnv translationWarp exampleTemplate exampleTarget identityParams
     = [[34, 29], [29, 25]] \<and>
   normalB exampleEnv translationWarp exampleTemplate exampleTarget identityParams
     = [[- 5], [- 4]] \<and>
   delta (alignImpl exampleEnv translationWarp exampleAligner identityParams) = [[- 1], [1]]"
proof -
  have H: "normalH exampleEnv translationWarp exampleTemplate exampleTarget identityParams
             = [[34, 29], [29, 25]]"
    by code_simp
  have B: "normalB exampleEnv translationWarp exampleTemplate exampleTarget identityParams
             = [[- 5], [- 4]]"
    by code_simp
  have S: "Matx_mul (Matx_inv exampleEnv [[34, 29], [29, 25]]) [[- 5], [- 4]] = [[- 1], [1]]"
    by code_simp
  show ?thesis
    using delta_is_inverse_applied_to_b [of exampleEnv translationWarp exampleAligner identityParams]
    by (simp add: example_images H B S)
qed

text \<open>
  C3. For every contributing pixel the residual is the template intensity minus the
  sampled target intensity: the error sum of the result adds the squares of
  \<open>ptr tpl y x - sample target (w (x, y))\<close>, and \<open>b\<close> adds \<open>sdi\<^sup>T\<close> times that
  difference, over the contributing pixels.
\<close>

theorem residual_is_template_minus_target:
  "sumErrors (alignImpl E W this w) =
     foldl (\<lambda>s p.
         s + (ptr (templateImage this) (snd p) (fst p)
                - sample E (targetImage this)
                    (warp W w (ScalarType E (fst p), ScalarType E (snd p))))
             * (ptr (templateImage this) (snd p) (fst p)
                - sample E (targetImage this)
                    (warp W w (ScalarType E (fst p), ScalarType E (snd p)))))
       0 (contributing E W (templateImage this) (targetImage this) w) \<and>
   rhs_b (alignAccumulate E W this w) =
     foldl (\<lambda>b p.
         Matx_add b
           (Matx_scale (Matx_t (sdi E W (targetImage this) w p))
              (ptr (templateImage this) (snd p) (fst p)
                - sample E (targetImage this)
                    (warp W w (ScalarType E (fst p), ScalarType E (snd p))))))
       (zeroParam (numParameters W w))
       (contributing E W (templateImage this) (targetImage this) w)"
  by (simp add: alignImpl_def alignAccumulate_contributing sumErrors_foldl_addPixel
      rhs_b_foldl_addPixel zeroLocals_def residual_def p_tgt_def p_tpl_def Let_def)

theorem residual_is_template_minus_target_witness:
  "sumErrors (alignImpl exampleEnv translationWarp exampleAligner identityParams) = 1 \<and>
   rhs_b (alignAccumulate exampleEnv translationWarp exampleAligner identityParams)
     = [[- 5], [- 4]]"
proof -
  note T = residual_is_template_minus_target
    [of exampleEnv translationWarp exampleAligner identityParams]
  have "sumErrors (alignImpl exampleEnv translationWarp exampleAligner identityParams) = 1"
    by (subst conjunct1 [OF T]) code_simp
  moreover
  have "rhs_b (alignAccumulate exampleEnv translationWarp exampleAligner identityParams)
          = [[- 5], [- 4]]"
    by (subst conjunct2 [OF T]) code_simp
  ultimately show ?thesis by simp
qed

text \<open>
  C4. For every contributing pixel the gradient is taken on the target image at the warped
  point \<open>w (x, y)\<close>, the Jacobian of the warp at the template point \<open>(x, y)\<close>, and the
  steepest-descent row that enters \<open>H\<close> and \<open>b\<close> is their product.
\<close>

theorem gradient_at_warped_point_jacobian_at_template_point:
  "hessian (alignAccumulate E W this w) =
     foldl (\<lambda>H p.
         let ptpl = (ScalarType E (fst p), ScalarType E (snd p));
             sd = Matx_mul (gradient E (targetImage this) (warp W w ptpl)) (jacobian W w ptpl)
         in Matx_add H (Matx_mul (Matx_t sd) sd))
       (zeroHessian (numParameters W w))
       (contributing E W (templateImage this) (targetImage this) w) \<and>
   rhs_b (alignAccumulate E W this w) =
     foldl (\<lambda>b p.
         let ptpl = (ScalarType E (fst p), ScalarType E (snd p));
             sd = Matx_mul (gradient E (targetImage this) (warp W w ptpl)) (jacobian W w ptpl)
         in Matx_add b
              (Matx_scale (Matx_t sd) (residual E W (templateImage this) (targetImage this) w p)))
       (zeroParam (numParameters W w))
       (contributing E W (templateImage this) (targetImage this) w)"
  by (simp add: alignAccumulate_contributing hessian_foldl_addPixel rhs_b_foldl_addPixel
      zeroLocals_def sdi_def p_tgt_def p_tpl_def Let_def)

theorem gradient_at_warped_point_jacobian_at_template_point_witness:
  "hessian (alignAccumulate exampleEnv translationWarp exampleAligner shiftedParams)
     = [[25, 20], [20, 16]] \<and>
   rhs_b (alignAccumulate exampleEnv translationWarp exampleAligner shiftedParams)
     = [[- 20], [- 16]]"
proof -
  note T = gradient_at_warped_point_jacobian_at_template_point
    [of exampleEnv translationWarp exampleAligner shiftedParams]
  have "hessian (alignAccumulate exampleEnv translationWarp exampleAligner shiftedParams)
          = [[25, 20], [20, 16]]"
    by (subst conjunct1 [OF T]) code_simp
  moreover
  have "rhs_b (alignAccumulate exampleEnv translationWarp exampleAligner shiftedParams)
          = [[- 20], [- 16]]"
    by (subst conjunct2 [OF T]) code_simp
  ultimately show ?thesis by simp
qed

section \<open>Which pixels contribute\<close>

text \<open>
  C6. An interior template pixel contributes to the Hessian, to \<open>b\<close>, to the error sum and
  to the count exactly when the bounds test of line 113 accepts its warped point for the
  target size with border 1: the locals after the loops are the contributions of the accepted
  interior pixels and of no other, the count is their number, and the loop body leaves every
  local as it is for a pixel that fails the test.
\<close>

theorem contributes_iff_inside_target:
  "alignAccumulate E W this w =
     foldl (addPixel E W (templateImage this) (targetImage this) w)
       (zeroLocals (numParameters W w))
       (filter (\<lambda>p. isInImage E (warp W w (ScalarType E (fst p), ScalarType E (snd p)))
                      (Mat_size (targetImage this)) 1)
          (interior (templateImage this))) \<and>
   numConstraints (alignImpl E W this w) =
     int (length
       (filter (\<lambda>p. isInImage E (warp W w (ScalarType E (fst p), ScalarType E (snd p)))
                      (Mat_size (targetImage this)) 1)
          (interior (templateImage this)))) \<and>
   pixelBody E W (templateImage this) (targetImage this) w y x l =
     (if isInImage E (warp W w (ScalarType E x, ScalarType E y)) (Mat_size (targetImage this)) 1
      then addPixel E W (templateImage this) (targetImage this) w l (x, y)
      else l)"
proof -
  have c: "contributes E W (targetImage this) w =
      (\<lambda>p. isInImage E (warp W w (ScalarType E (fst p), ScalarType E (snd p)))
             (Mat_size (targetImage this)) 1)"
    by (rule ext) (simp add: contributes_def p_tgt_def p_tpl_def)
  have 1: "alignAccumulate E W this w =
     foldl (addPixel E W (templateImage this) (targetImage this) w)
       (zeroLocals (numParameters W w))
       (filter (contributes E W (targetImage this) w) (interior (templateImage this)))"
    by (simp add: alignAccumulate_contributing contributing_def)
  have 2: "numConstraints (alignImpl E W this w) =
     int (length (filter (contributes E W (targetImage this) w) (interior (templateImage this))))"
    by (simp add: alignImpl_def Let_def 1 sumConstraints_foldl_addPixel zeroLocals_def)
  have 3: "pixelBody E W (templateImage this) (targetImage this) w y x l =
     (if contributes E W (targetImage this) w (x, y)
      then addPixel E W (templateImage this) (targetImage this) w l (x, y) else l)"
    by (rule pixelBody_eq)
  show ?thesis
    using 1 2 3 unfolding c by simp
qed

theorem contributes_iff_inside_target_witness:
  "numConstraints (alignImpl exampleEnv translationWarp exampleAligner shiftedParams) = 1 \<and>
   isInImage exampleEnv (warp translationWarp shiftedParams (ScalarType exampleEnv 1, ScalarType exampleEnv 1))
     (Mat_size exampleTarget) 1 \<and>
   \<not> isInImage exampleEnv (warp translationWarp shiftedParams (ScalarType exampleEnv 2, ScalarType exampleEnv 1))
     (Mat_size exampleTarget) 1 \<and>
   pixelBody exampleEnv translationWarp exampleTemplate exampleTarget shiftedParams 1 2
       (zeroLocals 2) = zeroLocals 2"
proof -
  note T = contributes_iff_inside_target
    [of exampleEnv translationWarp exampleAligner shiftedParams 1 2 "zeroLocals 2"]
  have a: "numConstraints (alignImpl exampleEnv translationWarp exampleAligner shiftedParams) = 1"
    by (subst conjunct1 [OF conjunct2 [OF T]]) code_simp
  have b: "isInImage exampleEnv
      (warp translationWarp shiftedParams (ScalarType exampleEnv 1, ScalarType exampleEnv 1))
      (Mat_size exampleTarget) 1"
    by code_simp
  have c: "\<not> isInImage exampleEnv
      (warp translationWarp shiftedParams (ScalarType exampleEnv 2, ScalarType exampleEnv 1))
      (Mat_size exampleTarget) 1"
    by code_simp
  have d: "pixelBody exampleEnv translationWarp exampleTemplate exampleTarget shiftedParams 1 2
       (zeroLocals 2) = zeroLocals 2"
    using conjunct2 [OF conjunct2 [OF T]] c by (simp add: example_images)
  show ?thesis using a b c d by simp
qed

section \<open>A step to which no pixel contributes\<close>

lemma numConstraints_contributing:
  "numConstraints (alignImpl E W this w) =
     int (length (contributing E W (templateImage this) (targetImage this) w))"
  by (simp add: alignImpl_def Let_def alignAccumulate_contributing sumConstraints_foldl_addPixel
      zeroLocals_def)

lemma alignAccumulate_no_contribution:
  assumes "numConstraints (alignImpl E W this w) = 0"
  shows "alignAccumulate E W this w = zeroLocals (numParameters W w)"
proof -
  from assms have "contributing E W (templateImage this) (targetImage this) w = []"
    by (simp add: numConstraints_contributing)
  then show ?thesis
    by (simp add: alignAccumulate_contributing)
qed

text \<open>
  C2, as stated, fails: on a 2x2 template no pixel contributes, and the call returns a
  result, with delta the solve of the all-zero system, and signals no failure.
\<close>

theorem no_data_returns_a_result_counterexample:
  "numConstraints (alignImpl exampleEnv translationWarp smallAligner identityParams) = 0 \<and>
   alignImpl_call exampleEnv translationWarp smallAligner identityParams
     \<noteq> Inl AlignmentNoDataError \<and>
   alignImpl_call exampleEnv translationWarp smallAligner identityParams
     = Inr \<lparr> delta = [[0], [0]], sumErrors = 0, numConstraints = 0 \<rparr>"
proof -
  have "alignImpl exampleEnv translationWarp smallAligner identityParams
          = \<lparr> delta = [[0], [0]], sumErrors = 0, numConstraints = 0 \<rparr>"
    by code_simp
  then show ?thesis
    by (simp add: alignImpl_call_def)
qed

text \<open>
  C2, amended. When no template pixel contributes, the call signals no failure: it returns
  the result whose count is 0, whose error sum is 0 and whose delta is the inverse of the
  zero PxP matrix applied to the zero vector.
\<close>

theorem no_data_solves_the_zero_system:
  assumes "numConstraints (alignImpl E W this w) = 0"
  shows "alignImpl_call E W this w =
     Inr \<lparr> delta = Matx_mul (Matx_inv E (zeroHessian (numParameters W w)))
                     (zeroParam (numParameters W w)),
           sumErrors = 0, numConstraints = 0 \<rparr>"
  using alignAccumulate_no_contribution [OF assms]
  by (simp add: alignImpl_call_def alignImpl_def zeroLocals_def Let_def)

theorem no_data_solves_the_zero_system_witness:
  "numConstraints (alignImpl exampleEnv translationWarp exampleAligner farParams) = 0 \<and>
   alignImpl_call exampleEnv translationWarp exampleAligner farParams
     = Inr \<lparr> delta = [[0], [0]], sumErrors = 0, numConstraints = 0 \<rparr>"
proof -
  have h: "numConstraints (alignImpl exampleEnv translationWarp exampleAligner farParams) = 0"
    by code_simp
  have s: "Matx_mul (Matx_inv exampleEnv (zeroHessian (numParameters translationWarp farParams)))
             (zeroParam (numParameters translationWarp farParams)) = [[0], [0]]"
    by code_simp
  show ?thesis
    using no_data_solves_the_zero_system [OF h] h s by simp
qed

section \<open>The border of the template\<close>

lemma length_rows_of_pairs:
  "length (concat (map (\<lambda>y. map (f y) xs) ys)) = length ys * length xs"
  by (induction ys) simp_all

lemma length_interior:
  "int (length (interior tpl)) = max 0 (rows tpl - 2) * max 0 (cols tpl - 2)"
proof -
  have "length (interior tpl) = nat (rows tpl - 2) * nat (cols tpl - 2)"
    by (simp add: interior_def length_rows_of_pairs)
  then show ?thesis
    by (simp add: nat_mult_distrib max_def)
qed

lemma set_interior:
  "set (interior tpl) =
     {(x, y). 1 \<le> x \<and> x \<le> cols tpl - 2 \<and> 1 \<le> y \<and> y \<le> rows tpl - 2}"
  by (auto simp add: interior_def)

lemma alignAccumulate_interior:
  "alignAccumulate E W this w =
     foldl (\<lambda>l p. pixelBody E W (templateImage this) (targetImage this) w (snd p) (fst p) l)
       (zeroLocals (numParameters W w)) (interior (templateImage this))"
  by (simp add: alignAccumulate_def zeroLocals_def yLoop_interior Let_def)

lemma foldl_pixelBody_template_cong:
  assumes "\<forall>p \<in> set ps. ptr tpl' (snd p) (fst p) = ptr tpl (snd p) (fst p)"
  shows "foldl (\<lambda>l p. pixelBody E W tpl' target w (snd p) (fst p) l) l ps =
         foldl (\<lambda>l p. pixelBody E W tpl target w (snd p) (fst p) l) l ps"
  using assms
proof (induction ps arbitrary: l)
  case Nil
  show ?case by simp
next
  case (Cons p ps)
  have "pixelBody E W tpl' target w (snd p) (fst p) l =
        pixelBody E W tpl target w (snd p) (fst p) l"
    using Cons.prems by (simp add: pixelBody_def)
  moreover have "\<forall>q \<in> set ps. ptr tpl' (snd q) (fst q) = ptr tpl (snd q) (fst q)"
    using Cons.prems by simp
  ultimately show ?case
    using Cons.IH by simp
qed

lemma alignAccumulate_border_independent:
  assumes "rows tpl' = rows (templateImage this)" "cols tpl' = cols (templateImage this)"
    and "\<forall>x y. 1 \<le> x \<and> x \<le> cols (templateImage this) - 2 \<and>
               1 \<le> y \<and> y \<le> rows (templateImage this) - 2
             \<longrightarrow> ptr tpl' y x = ptr (templateImage this) y x"
  shows "alignAccumulate E W (this\<lparr>templateImage := tpl'\<rparr>) w = alignAccumulate E W this w"
proof -
  have i: "interior tpl' = interior (templateImage this)"
    using assms(1,2) by (simp add: interior_def)
  have "\<forall>p \<in> set (interior (templateImage this)).
          ptr tpl' (snd p) (fst p) = ptr (templateImage this) (snd p) (fst p)"
    using assms(3) by (auto simp add: set_interior)
  then show ?thesis
    using foldl_pixelBody_template_cong
      [of "interior (templateImage this)" tpl' "templateImage this" E W "targetImage this" w]
    by (simp add: alignAccumulate_interior i)
qed

text \<open>
  C5, as stated, fails: on a template of 1 row and 3 columns the count is 0, and
  \<open>(N - 2) * (M - 2)\<close> is \<open>- 1\<close>.
\<close>

theorem count_bound_counterexample:
  "\<not> numConstraints (alignImpl exampleEnv translationWarp stripAligner identityParams)
       \<le> (rows (templateImage stripAligner) - 2) * (cols (templateImage stripAligner) - 2)"
  by code_simp

text \<open>
  C5, amended. On an NxM template the count is at most \<open>max 0 (N - 2) * max 0 (M - 2)\<close>;
  the loop body runs for the pixels of rows 1 to N-2 and columns 1 to M-2 and for no other,
  and the result does not depend on the template intensities of row 0, row N-1, column 0 and
  column M-1.
\<close>

theorem only_interior_pixels_contribute:
  "numConstraints (alignImpl E W this w)
     \<le> max 0 (rows (templateImage this) - 2) * max 0 (cols (templateImage this) - 2) \<and>
   alignAccumulate E W this w =
     foldl (\<lambda>l p. pixelBody E W (templateImage this) (targetImage this) w (snd p) (fst p) l)
       (zeroLocals (numParameters W w)) (interior (templateImage this)) \<and>
   set (interior (templateImage this)) =
     {(x, y). 1 \<le> x \<and> x \<le> cols (templateImage this) - 2 \<and>
              1 \<le> y \<and> y \<le> rows (templateImage this) - 2} \<and>
   (rows tpl' = rows (templateImage this) \<and> cols tpl' = cols (templateImage this) \<and>
    (\<forall>x y. 1 \<le> x \<and> x \<le> cols (templateImage this) - 2 \<and>
           1 \<le> y \<and> y \<le> rows (templateImage this) - 2
         \<longrightarrow> ptr tpl' y x = ptr (templateImage this) y x)
    \<longrightarrow> alignImpl E W (this\<lparr>templateImage := tpl'\<rparr>) w = alignImpl E W this w)"
proof -
  have "length (contributing E W (templateImage this) (targetImage this) w)
          \<le> length (interior (templateImage this))"
    by (simp add: contributing_def)
  then have "numConstraints (alignImpl E W this w) \<le> int (length (interior (templateImage this)))"
    by (simp add: numConstraints_contributing)
  then have 1: "numConstraints (alignImpl E W this w)
     \<le> max 0 (rows (templateImage this) - 2) * max 0 (cols (templateImage this) - 2)"
    by (simp only: length_interior)
  show ?thesis
    using 1 alignAccumulate_interior [of E W this w] set_interior [of "templateImage this"]
      alignAccumulate_border_independent [of tpl' this E W w]
    by (simp add: alignImpl_def)
qed

theorem only_interior_pixels_contribute_witness:
  "numConstraints (alignImpl exampleEnv translationWarp exampleAligner identityParams) = 2 \<and>
   max 0 (rows (templateImage exampleAligner) - 2) * max 0 (cols (templateImage exampleAligner) - 2)
     = 2 \<and>
   rows borderChangedTemplate = rows (templateImage exampleAligner) \<and>
   cols borderChangedTemplate = cols (templateImage exampleAligner) \<and>
   ptr borderChangedTemplate 0 0 \<noteq> ptr (templateImage exampleAligner) 0 0 \<and>
   alignImpl exampleEnv translationWarp (exampleAligner\<lparr>templateImage := borderChangedTemplate\<rparr>)
       identityParams
     = alignImpl exampleEnv translationWarp exampleAligner identityParams"
proof -
  note T = only_interior_pixels_contribute
    [of exampleEnv translationWarp exampleAligner identityParams borderChangedTemplate]
  have n: "numConstraints (alignImpl exampleEnv translationWarp exampleAligner identityParams) = 2"
    by code_simp
  have d: "rows borderChangedTemplate = rows (templateImage exampleAligner)"
    "cols borderChangedTemplate = cols (templateImage exampleAligner)"
    "max 0 (rows (templateImage exampleAligner) - 2)
       * max 0 (cols (templateImage exampleAligner) - 2) = 2"
    "ptr borderChangedTemplate 0 0 \<noteq> ptr (templateImage exampleAligner) 0 0"
    by (simp_all add: borderChangedTemplate_def exampleAligner_def exampleTemplate_def)
  have a: "\<forall>x y. 1 \<le> x \<and> x \<le> cols (templateImage exampleAligner) - 2 \<and>
           1 \<le> y \<and> y \<le> rows (templateImage exampleAligner) - 2
         \<longrightarrow> ptr borderChangedTemplate y x = ptr (templateImage exampleAligner) y x"
    by (simp add: borderChangedTemplate_def exampleAligner_def exampleTemplate_def)
  have e: "alignImpl exampleEnv translationWarp
       (exampleAligner\<lparr>templateImage := borderChangedTemplate\<rparr>) identityParams
     = alignImpl exampleEnv translationWarp exampleAligner identityParams"
    using T d(1,2) a by blast
  show ?thesis using n d e by simp
qed

section \<open>Consecutive steps\<close>

text \<open>
  C7. The accumulators of a step start at zero and hold nothing of an earlier step: when a
  step from \<open>w\<close> is followed by \<open>applyStep\<close> and a second step from the updated warp
  \<open>w1\<close>, the locals of the second call are the contributions, added to zero matrices, a
  zero error sum and a zero count, of the pixels that contribute under \<open>w1\<close>, and its
  result is determined by the two images and \<open>w1\<close>.
\<close>

theorem second_step_starts_from_zero:
  assumes "r1 = alignImpl E W this w"
    and "w1 = applyStep W w r1"
    and "r2 = alignImpl E W this w1"
  shows "alignAccumulate E W this w1 =
      foldl (addPixel E W (templateImage this) (targetImage this) w1)
        \<lparr> hessian = zeroHessian (numParameters W w1), rhs_b = zeroParam (numParameters W w1),
          sumErrors_acc = 0, sumConstraints = 0 \<rparr>
        (contributing E W (templateImage this) (targetImage this) w1) \<and>
    sumErrors r2 =
      foldl (\<lambda>s p. s + residual E W (templateImage this) (targetImage this) w1 p
                        * residual E W (templateImage this) (targetImage this) w1 p)
        0 (contributing E W (templateImage this) (targetImage this) w1) \<and>
    numConstraints r2 = int (length (contributing E W (templateImage this) (targetImage this) w1)) \<and>
    delta r2 =
      Matx_mul (Matx_inv E (normalH E W (templateImage this) (targetImage this) w1))
        (normalB E W (templateImage this) (targetImage this) w1)"
  unfolding assms(3)
  by (simp add: alignImpl_def alignAccumulate_contributing zeroLocals_def Let_def
      sumErrors_foldl_addPixel sumConstraints_foldl_addPixel hessian_foldl_addPixel
      rhs_b_foldl_addPixel normalH_def normalB_def)

theorem second_step_starts_from_zero_witness:
  "alignImpl exampleEnv translationWarp exampleAligner shiftedParams
     = \<lparr> delta = [[0], [0]], sumErrors = 16, numConstraints = 1 \<rparr> \<and>
   applyStep translationWarp shiftedParams
       (alignImpl exampleEnv translationWarp exampleAligner shiftedParams) = [[1], [0]] \<and>
   sumErrors (alignImpl exampleEnv translationWarp exampleAligner [[1], [0]]) = 16 \<and>
   numConstraints (alignImpl exampleEnv translationWarp exampleAligner [[1], [0]]) = 1"
proof -
  have r1: "alignImpl exampleEnv translationWarp exampleAligner shiftedParams
     = \<lparr> delta = [[0], [0]], sumErrors = 16, numConstraints = 1 \<rparr>"
    by code_simp
  have w1: "applyStep translationWarp shiftedParams
       (alignImpl exampleEnv translationWarp exampleAligner shiftedParams) = [[1], [0]]"
    by code_simp
  note T = second_step_starts_from_zero
    [of _ exampleEnv translationWarp exampleAligner shiftedParams "[[1], [0]]" _,
     OF refl w1 [symmetric] refl]
  have s: "sumErrors (alignImpl exampleEnv translationWarp exampleAligner [[1], [0]]) = 16"
    by (subst conjunct1 [OF conjunct2 [OF T]]) code_simp
  have n: "numConstraints (alignImpl exampleEnv translationWarp exampleAligner [[1], [0]]) = 1"
    by (subst conjunct1 [OF conjunct2 [OF conjunct2 [OF T]]]) code_simp
  show ?thesis using r1 w1 s n by simp
qed

section \<open>Determinism\<close>

text \<open>
  C10. A step is deterministic: two calls on objects with equal template image and equal
  target image (whatever else the objects hold) and with equal warps return the same delta,
  error sum and count, and \<open>applyStep\<close> applies the same update, the additive update
  of the warp by that delta.
\<close>

theorem step_is_deterministic:
  assumes "templateImage this = templateImage this'"
    and "targetImage this = targetImage this'"
    and "w = w'"
  shows "alignImpl E W this w = alignImpl E W this' w' \<and>
    applyStep W w (alignImpl E W this w) = applyStep W w' (alignImpl E W this' w') \<and>
    applyStep W w (alignImpl E W this w) =
      updateForwardAdditive W w (delta (alignImpl E W this w))"
proof -
  have "alignAccumulate E W this w = alignAccumulate E W this' w'"
    using assms by (simp add: alignAccumulate_def)
  then have "alignImpl E W this w = alignImpl E W this' w'"
    by (simp add: alignImpl_def)
  then show ?thesis
    using assms(3) by (simp add: applyStep_def)
qed

theorem step_is_deterministic_witness:
  "templateImage exampleAligner = templateImage annotatedAligner \<and>
   targetImage exampleAligner = targetImage annotatedAligner \<and>
   AlignBase.more annotatedAligner = 7 \<and>
   alignImpl exampleEnv translationWarp exampleAligner identityParams
     = alignImpl exampleEnv translationWarp annotatedAligner identityParams \<and>
   applyStep translationWarp identityParams
       (alignImpl exampleEnv translationWarp annotatedAligner identityParams)
     = [[- 1], [1]]"
proof -
  have a: "templateImage exampleAligner = templateImage annotatedAligner"
    "targetImage exampleAligner = targetImage annotatedAligner"
    "AlignBase.more annotatedAligner = 7"
    by (simp_all add: exampleAligner_def annotatedAligner_def)
  note T = step_is_deterministic [OF a(1) a(2) refl, of exampleEnv translationWarp identityParams]
  have u: "applyStep translationWarp identityParams
       (alignImpl exampleEnv translationWarp exampleAligner identityParams) = [[- 1], [1]]"
    by code_simp
  show ?thesis using T a u by simp
qed

section \<open>Shapes of the matrices of a step\<close>

lemma Matx_t_row: "Matx_t [s] = map (\<lambda>e. [e]) s"
  by (rule nth_equalityI) (simp_all add: Matx_t_def Matx_ncols_def)

lemma length_Matx_t: "length (Matx_t A) = Matx_ncols A"
  by (simp add: Matx_t_def)

lemma Matx_mul_row: "Matx_mul [g] J = [map (\<lambda>c. Matx_dot g c) (Matx_t J)]"
  by (simp add: Matx_mul_def)

lemma Matx_dot_single: "Matx_dot [a] [b] = 0 + a * b"
  by (simp add: Matx_dot_def)

lemma outer_row:
  "Matx_mul (Matx_t [s]) [s] = map (\<lambda>a. map (\<lambda>b. Matx_dot [a] [b]) s) s"
  by (simp add: Matx_mul_def Matx_t_row comp_def)

lemma sdi_row:
  assumes "wellShaped E W target w"
  shows "\<exists>s. sdi E W target w p = [s] \<and> length s = numParameters W w"
proof -
  let ?G = "gradient E target (p_tgt E W w p)"
  let ?J = "jacobian W w (p_tpl E p)"
  from assms have "length ?G = 1"
    unfolding wellShaped_def by blast
  then obtain g where g: "?G = [g]"
    by (cases ?G) simp_all
  from assms have J: "length ?J = 2" "\<forall>r \<in> set ?J. length r = numParameters W w"
    unfolding wellShaped_def by blast+
  then have "Matx_ncols ?J = numParameters W w"
    by (cases ?J) (simp_all add: Matx_ncols_def)
  then have "length (map (\<lambda>c. Matx_dot g c) (Matx_t ?J)) = numParameters W w"
    by (simp add: length_Matx_t)
  then show ?thesis
    by (simp add: sdi_def g Matx_mul_row)
qed

lemma Matx_dim_zeros: "Matx_dim m n (Matx_zeros m n)"
  by (simp add: Matx_dim_def Matx_zeros_def)

lemma Matx_dim_outer:
  "length s = n \<Longrightarrow> Matx_dim n n (Matx_mul (Matx_t [s]) [s])"
  by (auto simp add: Matx_dim_def outer_row)

lemma Matx_dim_add:
  "Matx_dim m n A \<Longrightarrow> Matx_dim m n B \<Longrightarrow> Matx_dim m n (Matx_add A B)"
  by (auto simp add: Matx_dim_def Matx_add_def dest!: set_zip_leftD set_zip_rightD
      elim!: in_set_zipE)

lemma Matx_add_nth:
  assumes "Matx_dim m n A" "Matx_dim m n B" "i < m" "j < n"
  shows "Matx_add A B ! i ! j = A ! i ! j + B ! i ! j"
proof -
  from assms have "length (A ! i) = n" "length (B ! i) = n"
    by (simp_all add: Matx_dim_def)
  with assms show ?thesis
    by (simp add: Matx_add_def Matx_dim_def)
qed

lemma outer_nth:
  "i < length s \<Longrightarrow> j < length s \<Longrightarrow>
     Matx_mul (Matx_t [s]) [s] ! i ! j = 0 + s ! i * s ! j"
  by (simp add: outer_row Matx_dot_single)

lemma Matx_zeros_nth: "i < m \<Longrightarrow> j < n \<Longrightarrow> Matx_zeros m n ! i ! j = 0"
  by (simp add: Matx_zeros_def)

lemma hessian_sum_dim:
  assumes "wellShaped E W target w" "Matx_dim (numParameters W w) (numParameters W w) H0"
  shows "Matx_dim (numParameters W w) (numParameters W w)
     (foldl (\<lambda>H p. Matx_add H (Matx_mul (Matx_t (sdi E W target w p)) (sdi E W target w p)))
        H0 ps)"
  using assms(2)
proof (induction ps arbitrary: H0)
  case Nil
  then show ?case by simp
next
  case (Cons p ps)
  from sdi_row [OF assms(1), of p] obtain s
    where s: "sdi E W target w p = [s]" "length s = numParameters W w"
    by blast
  have "Matx_dim (numParameters W w) (numParameters W w)
          (Matx_add H0 (Matx_mul (Matx_t [s]) [s]))"
    using Cons.prems s(2) by (simp add: Matx_dim_add Matx_dim_outer)
  then show ?case
    using Cons.IH by (simp add: s(1))
qed

lemma quadratic_form_of_sum:
  fixes a :: "'p \<Rightarrow> nat \<Rightarrow> 'a::linordered_idom"
  shows "(\<Sum>i<n. \<Sum>j<n. v i * sum_list (map (\<lambda>p. a p i * a p j) ps) * v j)
     = sum_list (map (\<lambda>p. (\<Sum>i<n. v i * a p i) * (\<Sum>i<n. v i * a p i)) ps)"
proof (induction ps)
  case Nil
  show ?case by simp
next
  case (Cons p ps)
  have "(\<Sum>i<n. \<Sum>j<n. v i * sum_list (map (\<lambda>p. a p i * a p j) (p # ps)) * v j)
      = (\<Sum>i<n. \<Sum>j<n. (v i * a p i) * (v j * a p j))
        + (\<Sum>i<n. \<Sum>j<n. v i * sum_list (map (\<lambda>p. a p i * a p j) ps) * v j)"
    by (simp add: algebra_simps sum.distrib)
  also have "(\<Sum>i<n. \<Sum>j<n. (v i * a p i) * (v j * a p j))
      = (\<Sum>i<n. v i * a p i) * (\<Sum>i<n. v i * a p i)"
    by (simp add: sum_product)
  finally show ?case
    using Cons.IH by simp
qed

lemma quadratic_form_nonneg:
  fixes a :: "'p \<Rightarrow> nat \<Rightarrow> 'a::linordered_idom"
  shows "0 \<le> (\<Sum>i<n. \<Sum>j<n. v i * sum_list (map (\<lambda>p. a p i * a p j) ps) * v j)"
  unfolding quadratic_form_of_sum
  by (rule sum_list_nonneg) auto

section \<open>The Hessian at the solve\<close>

lemma hessian_alignAccumulate:
  "hessian (alignAccumulate E W this w) =
     foldl (\<lambda>H p. Matx_add H (Matx_mul (Matx_t (sdi E W (targetImage this) w p))
                                 (sdi E W (targetImage this) w p)))
       (zeroHessian (numParameters W w))
       (contributing E W (templateImage this) (targetImage this) w)"
  by (simp add: alignAccumulate_contributing hessian_foldl_addPixel zeroLocals_def)

lemma hessian_fold_nth:
  assumes "wellShaped E W target w" "Matx_dim (numParameters W w) (numParameters W w) H0"
    and "i < numParameters W w" "j < numParameters W w"
  shows "foldl (\<lambda>H p. Matx_add H (Matx_mul (Matx_t (sdi E W target w p)) (sdi E W target w p)))
        H0 ps ! i ! j
     = foldl (\<lambda>h p. h + (0 + hd (sdi E W target w p) ! i * hd (sdi E W target w p) ! j))
         (H0 ! i ! j) ps"
  using assms(2)
proof (induction ps arbitrary: H0)
  case Nil
  then show ?case by simp
next
  case (Cons p ps)
  from sdi_row [OF assms(1), of p] obtain s
    where s: "sdi E W target w p = [s]" "length s = numParameters W w"
    by blast
  have d: "Matx_dim (numParameters W w) (numParameters W w) (Matx_mul (Matx_t [s]) [s])"
    using s(2) by (simp add: Matx_dim_outer)
  have d': "Matx_dim (numParameters W w) (numParameters W w)
          (Matx_add H0 (Matx_mul (Matx_t [s]) [s]))"
    using Cons.prems d by (simp add: Matx_dim_add)
  have "Matx_add H0 (Matx_mul (Matx_t [s]) [s]) ! i ! j = H0 ! i ! j + (0 + s ! i * s ! j)"
    using Matx_add_nth [OF Cons.prems d assms(3,4)] assms(3,4) s(2)
    by (simp add: outer_nth)
  then show ?case
    using Cons.IH [OF d'] by (simp add: s(1))
qed

lemma exact_fold_sum:
  fixes phi :: "'a::{zero,plus,times} \<Rightarrow> 'b::linordered_idom"
  assumes "phi 0 = 0" "\<forall>a b. phi (a + b) = phi a + phi b" "\<forall>a b. phi (a * b) = phi a * phi b"
  shows "phi (foldl (\<lambda>h p. h + (0 + f p * g p)) h0 ps)
     = phi h0 + sum_list (map (\<lambda>p. phi (f p) * phi (g p)) ps)"
  by (induction ps arbitrary: h0) (simp_all add: assms add.assoc)

text \<open>
  C9, as stated, fails under rounding. On the ramp image the one interior pixel has the
  steepest-descent row \<open>(1 + 2\<^sup>-\<^sup>1\<^sup>3, 1)\<close>; the square of its first entry rounds to
  \<open>1 + 2\<^sup>-\<^sup>1\<^sup>2\<close>, the Hessian has determinant \<open>- 2\<^sup>-\<^sup>2\<^sup>6\<close>, and \<open>v\<^sup>T H v\<close> is
  negative at \<open>v = (1, - (1 + 2\<^sup>-\<^sup>1\<^sup>3))\<close>.
\<close>

theorem positive_semidefinite_counterexample:
  "wellShaped roundedEnv roundedTranslation (targetImage rampAligner) roundedIdentity \<and>
   hessian (alignAccumulate roundedEnv roundedTranslation rampAligner roundedIdentity)
     = [[Rounded (4097 / 4096), Rounded (8193 / 8192)], [Rounded (8193 / 8192), Rounded 1]] \<and>
   \<not> 0 \<le>
     1 * exact_value
           (hessian (alignAccumulate roundedEnv roundedTranslation rampAligner roundedIdentity)
              ! 0 ! 0) * 1
     + 1 * exact_value
           (hessian (alignAccumulate roundedEnv roundedTranslation rampAligner roundedIdentity)
              ! 0 ! 1) * (- (8193 / 8192))
     + (- (8193 / 8192)) * exact_value
           (hessian (alignAccumulate roundedEnv roundedTranslation rampAligner roundedIdentity)
              ! 1 ! 0) * 1
     + (- (8193 / 8192)) * exact_value
           (hessian (alignAccumulate roundedEnv roundedTranslation rampAligner roundedIdentity)
              ! 1 ! 1) * (- (8193 / 8192))"
proof -
  have s: "wellShaped roundedEnv roundedTranslation (targetImage rampAligner) roundedIdentity"
    by (simp add: wellShaped_def roundedEnv_def roundedTranslation_def storedDifference_def
        Let_def)
  have H: "hessian (alignAccumulate roundedEnv roundedTranslation rampAligner roundedIdentity)
     = [[Rounded (4097 / 4096), Rounded (8193 / 8192)], [Rounded (8193 / 8192), Rounded 1]]"
    by code_simp
  show ?thesis
    using s unfolding H by simp
qed

text \<open>
  C9, amended. With the shapes that the types fix, the Hessian accumulator at the solve is a
  PxP matrix whose entry \<open>(i, j)\<close> is the sum, added up from zero in scan order in the
  arithmetic of the scalars, of the products \<open>sd\<^sub>i * sd\<^sub>j\<close> over the contributing pixels,
  for \<open>sd\<close> the steepest-descent row of the pixel; it is the zero matrix when no pixel
  contributes; it is symmetric when the multiplication of the scalars commutes; and it is
  positive semidefinite when the arithmetic of the scalars is exact, that is, when a map
  \<open>phi\<close> into an ordered ring carries \<open>0\<close>, \<open>+\<close> and \<open>*\<close> to those of the ring:
  then \<open>v\<^sup>T phi(H) v \<ge> 0\<close> for every \<open>v\<close>.
\<close>

theorem hessian_is_symmetric_sum_of_outer_products:
  fixes E :: "'a::{zero,plus,minus,times} Env" and phi :: "'a \<Rightarrow> 'b::linordered_idom"
  assumes "wellShaped E W (targetImage this) w"
  shows "let H = hessian (alignAccumulate E W this w);
             P = numParameters W w;
             cs = contributing E W (templateImage this) (targetImage this) w;
             sd = (\<lambda>p. hd (sdi E W (targetImage this) w p))
         in Matx_dim P P H \<and>
            (\<forall>i<P. \<forall>j<P. H ! i ! j = foldl (\<lambda>h p. h + (0 + sd p ! i * sd p ! j)) 0 cs) \<and>
            (cs = [] \<longrightarrow> H = zeroHessian P) \<and>
            ((\<forall>a b :: 'a. a * b = b * a) \<longrightarrow> (\<forall>i<P. \<forall>j<P. H ! i ! j = H ! j ! i)) \<and>
            (phi 0 = 0 \<and> (\<forall>a b. phi (a + b) = phi a + phi b) \<and>
               (\<forall>a b. phi (a * b) = phi a * phi b)
             \<longrightarrow> (\<forall>v. length v = P \<longrightarrow>
                    0 \<le> (\<Sum>i<P. \<Sum>j<P. v ! i * phi (H ! i ! j) * v ! j)))"
proof -
  define H where "H = hessian (alignAccumulate E W this w)"
  define P where "P = numParameters W w"
  define cs where "cs = contributing E W (templateImage this) (targetImage this) w"
  define sd where "sd = (\<lambda>p. hd (sdi E W (targetImage this) w p))"
  have z: "Matx_dim P P (zeroHessian P :: 'a Matx)"
    by (simp add: zeroHessian_def Matx_dim_zeros)
  have dim: "Matx_dim P P H"
    unfolding H_def hessian_alignAccumulate
    using hessian_sum_dim [OF assms, of "zeroHessian (numParameters W w)"] z
    by (simp add: P_def)
  have entry: "H ! i ! j = foldl (\<lambda>h p. h + (0 + sd p ! i * sd p ! j)) 0 cs"
    if "i < P" "j < P" for i j
    unfolding H_def hessian_alignAccumulate
    using hessian_fold_nth [OF assms, of "zeroHessian (numParameters W w)" i j] z that
    by (simp add: P_def cs_def sd_def zeroHessian_def Matx_zeros_nth)
  have empty: "H = zeroHessian P" if "cs = []"
    using that unfolding H_def hessian_alignAccumulate by (simp add: cs_def P_def)
  have sym: "H ! i ! j = H ! j ! i" if c: "\<forall>a b :: 'a. a * b = b * a" and "i < P" "j < P" for i j
  proof -
    have "(\<lambda>h p. h + (0 + sd p ! i * sd p ! j)) = (\<lambda>h p. h + (0 + sd p ! j * sd p ! i))"
      using c by presburger
    then show ?thesis
      using entry [OF that(2,3)] entry [OF that(3,2)] by simp
  qed
  have psd: "0 \<le> (\<Sum>i<P. \<Sum>j<P. v ! i * phi (H ! i ! j) * v ! j)"
    if e: "phi 0 = 0" "\<forall>a b. phi (a + b) = phi a + phi b" "\<forall>a b. phi (a * b) = phi a * phi b"
    for v
  proof -
    have "(\<Sum>i<P. \<Sum>j<P. v ! i * phi (H ! i ! j) * v ! j)
        = (\<Sum>i<P. \<Sum>j<P. v ! i
             * sum_list (map (\<lambda>p. phi (sd p ! i) * phi (sd p ! j)) cs) * v ! j)"
      by (intro sum.cong refl) (simp add: entry exact_fold_sum [OF e] e(1))
    also have "0 \<le> \<dots>"
      by (rule quadratic_form_nonneg
          [where v = "\<lambda>i. v ! i" and n = P and a = "\<lambda>p i. phi (sd p ! i)" and ps = cs])
    finally show ?thesis by simp
  qed
  show ?thesis
    using dim entry empty sym psd
    unfolding Let_def H_def P_def cs_def sd_def by blast
qed

theorem hessian_is_symmetric_sum_of_outer_products_witness:
  "wellShaped exampleEnv translationWarp (targetImage exampleAligner) identityParams \<and>
   hessian (alignAccumulate exampleEnv translationWarp exampleAligner identityParams)
     = [[34, 29], [29, 25]] \<and>
   hessian (alignAccumulate exampleEnv translationWarp exampleAligner identityParams) ! 0 ! 1
     = hessian (alignAccumulate exampleEnv translationWarp exampleAligner identityParams) ! 1 ! 0 \<and>
   (0::real) \<le> (\<Sum>i<2. \<Sum>j<2. [1, - 1] ! i * [[34, 29], [29, 25]] ! i ! j * [1, - 1] ! j)"
proof -
  have s: "wellShaped exampleEnv translationWarp (targetImage exampleAligner) identityParams"
    by (simp add: wellShaped_def exampleEnv_def translationWarp_def centralDifference_def)
  have P: "numParameters translationWarp identityParams = 2"
    by (simp add: translationWarp_def)
  have H: "hessian (alignAccumulate exampleEnv translationWarp exampleAligner identityParams)
     = [[34, 29], [29, 25]]"
    by code_simp
  have c: "\<forall>a b :: real. a * b = b * a"
    by (simp add: mult.commute)
  note T = hessian_is_symmetric_sum_of_outer_products
    [OF s, where phi = "\<lambda>x :: real. x", unfolded Let_def P H]
  from T c have "\<forall>i<2. \<forall>j<2. [[34, 29], [29, 25 :: real]] ! i ! j = [[34, 29], [29, 25]] ! j ! i"
    by blast
  from T have "\<forall>v. length v = 2 \<longrightarrow>
      (0::real) \<le> (\<Sum>i<2. \<Sum>j<2. v ! i * [[34, 29], [29, 25]] ! i ! j * v ! j)"
    by blast
  then have "(0::real) \<le> (\<Sum>i<2. \<Sum>j<2. [1, - 1] ! i * [[34, 29], [29, 25]] ! i ! j * [1, - 1] ! j)"
    by (rule allE [where x = "[1, - 1]"]) simp
  then show ?thesis
    using s H by simp
qed

section \<open>An image aligned with itself\<close>

lemma foldl_squares_zero:
  fixes f :: "'p \<Rightarrow> 'a::ring"
  assumes "\<forall>p \<in> set ps. f p = 0"
  shows "foldl (\<lambda>s p. s + f p * f p) 0 ps = 0"
  using assms by (induction ps) simp_all

lemma Matx_dot_zeros:
  fixes r :: "'a::ring list"
  shows "Matx_dot r (replicate n 0) = 0"
proof -
  have "foldl (\<lambda>s (a, b). s + a * b) 0 (zip r (replicate n (0::'a))) = 0"
  proof (induction r arbitrary: n)
    case Nil
    show ?case by simp
  next
    case (Cons a r)
    show ?case
      by (cases n) (simp_all add: Cons.IH)
  qed
  then show ?thesis
    by (simp add: Matx_dot_def)
qed

lemma zeroParam_replicate: "zeroParam n = replicate n [0]"
  by (simp add: zeroParam_def Matx_zeros_def)

lemma Matx_t_zeroParam: "0 < n \<Longrightarrow> Matx_t (replicate n [0]) = [replicate n 0]"
  by (cases n) (simp_all add: Matx_t_def Matx_ncols_def)

lemma Matx_mul_zeroParam:
  fixes A :: "'a::ring Matx"
  assumes "length A = n"
  shows "Matx_mul A (zeroParam n) = zeroParam n"
proof (cases "n = 0")
  case True
  with assms show ?thesis
    by (simp add: Matx_mul_def zeroParam_replicate)
next
  case False
  then have "Matx_mul A (replicate n [0]) = map (\<lambda>r. [0]) A"
    by (simp add: Matx_mul_def Matx_t_zeroParam Matx_dot_zeros)
  also have "\<dots> = replicate n [0]"
    using assms by (simp add: map_replicate_const)
  finally show ?thesis
    by (simp add: zeroParam_replicate)
qed

lemma Matx_add_zeroParam:
  "Matx_add (zeroParam n) (zeroParam n) = (zeroParam n :: 'a::ring Matx)"
  by (simp add: Matx_add_def zeroParam_replicate zip_replicate)

lemma Matx_scale_row_zero:
  fixes s :: "'a::ring list"
  shows "Matx_scale (Matx_t [s]) 0 = zeroParam (length s)"
  by (simp add: Matx_scale_def Matx_t_row zeroParam_replicate comp_def map_replicate_const)

lemma rhs_sum_zero:
  fixes E :: "'a::ring Env"
  assumes "wellShaped E W target w"
    and "\<forall>p \<in> set ps. residual E W tpl target w p = 0"
  shows "foldl (\<lambda>b p. Matx_add b
            (Matx_scale (Matx_t (sdi E W target w p)) (residual E W tpl target w p)))
          (zeroParam (numParameters W w)) ps
        = zeroParam (numParameters W w)"
  using assms(2)
proof (induction ps)
  case Nil
  show ?case by simp
next
  case (Cons p ps)
  from sdi_row [OF assms(1), of p] obtain s
    where s: "sdi E W target w p = [s]" "length s = numParameters W w"
    by blast
  have "residual E W tpl target w p = 0"
    using Cons.prems by simp
  then have "Matx_add (zeroParam (numParameters W w))
          (Matx_scale (Matx_t (sdi E W target w p)) (residual E W tpl target w p))
        = zeroParam (numParameters W w)"
    using Matx_scale_row_zero [of s] by (simp add: s Matx_add_zeroParam)
  then show ?case
    using Cons.IH Cons.prems by simp
qed

text \<open>
  C8. One image as template and as target, under a warp that maps every point to itself: in
  exact arithmetic, with a bounds test that accepts the interior pixels of the image and a
  sampler that returns the stored intensity at integer coordinates, a step returns error sum
  0, the zero vector as delta, and as count the number of interior pixels.
\<close>

theorem identity_warp_on_the_same_image:
  fixes E :: "'a::ring Env"
  assumes same: "templateImage this = targetImage this"
    and ident: "\<forall>p. warp W w p = p"
    and inside: "\<forall>p \<in> set (interior (targetImage this)).
        isInImage E (ScalarType E (fst p), ScalarType E (snd p)) (Mat_size (targetImage this)) 1"
    and exact: "\<forall>p \<in> set (interior (targetImage this)).
        sample E (targetImage this) (ScalarType E (fst p), ScalarType E (snd p))
          = ptr (targetImage this) (snd p) (fst p)"
    and shapes: "wellShaped E W (targetImage this) w"
    and inv_rows: "\<forall>H. length (Matx_inv E H) = length H"
  shows "sumErrors (alignImpl E W this w) = 0 \<and>
    numConstraints (alignImpl E W this w) = int (length (interior (templateImage this))) \<and>
    numConstraints (alignImpl E W this w)
      = max 0 (rows (templateImage this) - 2) * max 0 (cols (templateImage this) - 2) \<and>
    delta (alignImpl E W this w) = zeroParam (numParameters W w)"
proof -
  let ?img = "targetImage this"
  let ?P = "numParameters W w"
  have cs: "contributing E W ?img ?img w = interior ?img"
    using inside ident by (simp add: contributing_def contributes_def p_tgt_def p_tpl_def)
  have res: "\<forall>p \<in> set (interior ?img). residual E W ?img ?img w p = 0"
    using exact ident by (simp add: residual_def p_tgt_def p_tpl_def)
  have sse: "sumErrors (alignImpl E W this w) = 0"
    using foldl_squares_zero [OF res]
    by (simp add: alignImpl_def Let_def alignAccumulate_contributing sumErrors_foldl_addPixel
        zeroLocals_def same cs)
  have n: "numConstraints (alignImpl E W this w) = int (length (interior ?img))"
    by (simp add: numConstraints_contributing same cs)
  have b: "rhs_b (alignAccumulate E W this w) = zeroParam ?P"
    using rhs_sum_zero [OF shapes res]
    by (simp add: alignAccumulate_contributing rhs_b_foldl_addPixel zeroLocals_def same cs)
  have "Matx_dim ?P ?P (hessian (alignAccumulate E W this w))"
    unfolding hessian_alignAccumulate
    by (rule hessian_sum_dim [OF shapes]) (simp add: zeroHessian_def Matx_dim_zeros)
  then have "length (Matx_inv E (hessian (alignAccumulate E W this w))) = ?P"
    using inv_rows by (simp add: Matx_dim_def)
  then have d: "delta (alignImpl E W this w) = zeroParam ?P"
    by (simp add: alignImpl_def Let_def b Matx_mul_zeroParam)
  show ?thesis
    using sse n d length_interior [of ?img] by (simp add: same)
qed

theorem identity_warp_on_the_same_image_witness:
  "templateImage selfAligner = targetImage selfAligner \<and>
   wellShaped exampleEnv translationWarp (targetImage selfAligner) identityParams \<and>
   sumErrors (alignImpl exampleEnv translationWarp selfAligner identityParams) = 0 \<and>
   numConstraints (alignImpl exampleEnv translationWarp selfAligner identityParams) = 2 \<and>
   delta (alignImpl exampleEnv translationWarp selfAligner identityParams) = [[0], [0]]"
proof -
  have same: "templateImage selfAligner = targetImage selfAligner"
    by (simp add: selfAligner_def)
  have ident: "\<forall>p. warp translationWarp identityParams p = p"
    by (simp add: translationWarp_def identityParams_def)
  have i: "interior (targetImage selfAligner) = [(1, 1), (2, 1)]"
    by code_simp
  have inside: "\<forall>p \<in> set (interior (targetImage selfAligner)).
      isInImage exampleEnv (ScalarType exampleEnv (fst p), ScalarType exampleEnv (snd p))
        (Mat_size (targetImage selfAligner)) 1"
    unfolding i
    by (simp add: exampleEnv_def insideWithBorder_def Mat_size_def selfAligner_def
        exampleTarget_def)
  have exact: "\<forall>p \<in> set (interior (targetImage selfAligner)).
      sample exampleEnv (targetImage selfAligner)
          (ScalarType exampleEnv (fst p), ScalarType exampleEnv (snd p))
        = ptr (targetImage selfAligner) (snd p) (fst p)"
    by (simp add: exampleEnv_def bilinear_def)
  have shapes: "wellShaped exampleEnv translationWarp (targetImage selfAligner) identityParams"
    by (simp add: wellShaped_def exampleEnv_def translationWarp_def centralDifference_def)
  have inv_rows: "\<forall>H. length (Matx_inv exampleEnv H) = length H"
    by (simp add: exampleEnv_def inverse2x2_def Matx_zeros_def Let_def)
  note T = identity_warp_on_the_same_image [OF same ident inside exact shapes inv_rows]
  have P: "zeroParam (numParameters translationWarp identityParams) = [[0], [0::real]]"
    by code_simp
  have m: "max 0 (rows (templateImage selfAligner) - 2)
             * max 0 (cols (templateImage selfAligner) - 2) = 2"
    by (simp add: selfAligner_def exampleTarget_def)
  show ?thesis
    using T same shapes unfolding P m by simp
qed

end
